theory Spec2Isabelle
  imports Complex_Main
begin

section \<open>Calculation entities and their factory (app/calculation)\<close>

text \<open>
  The module \<open>app/calculation/__init__.py\<close> holds the abstract class \<open>Calculation\<close>, its four
  subclasses and the class \<open>CalculationFactory\<close> with its class-level dictionary
  \<open>_calculations\<close>. Operands are annotated \<open>float\<close> in the source; following the data model
  of the specification they are real numbers here, so rounding, infinities, NaN and signed
  zeros are outside this development.
\<close>

subsection \<open>Exceptions\<close>

text \<open>The two exception classes the module raises, each with its message.\<close>

datatype error = ValueError string | ZeroDivisionError string

subsection \<open>Strings: \<open>str.lower\<close> and \<open>str.replace\<close>\<close>

text \<open>
  A Python \<open>str\<close> is a \<open>string\<close> here by its UTF-8 bytes: an ASCII character is one byte
  below 128, and every byte of another character has its top bit set.

  \<open>str.lower\<close> follows the Unicode case tables of the interpreter. On text that is all ASCII
  they say: the 26 capital letters go to their small letters, every other character is kept.
  On text with a character beyond ASCII the answer is that of the parameter
  \<open>unicode_lower\<close>, which stands for the interpreter's tables and is given the whole text
  (the lower-case form of a letter may depend on its neighbours, and may be longer than
  the letter).
\<close>

definition lower_char :: "char \<Rightarrow> char" where
  "lower_char c =
     (case map_of (zip ''ABCDEFGHIJKLMNOPQRSTUVWXYZ'' ''abcdefghijklmnopqrstuvwxyz'') c of
        None \<Rightarrow> c
      | Some l \<Rightarrow> l)"

definition is_ascii :: "string \<Rightarrow> bool" where
  "is_ascii s = list_all (\<lambda>c. \<not> digit7 c) s"

definition lower :: "(string \<Rightarrow> string) \<Rightarrow> string \<Rightarrow> string" where
  "lower unicode_lower s = (if is_ascii s then map lower_char s else unicode_lower s)"

text \<open>
  An instance of the parameter for the examples below, which give it only the one-letter
  texts E-acute (bytes C3 89) and e-acute (bytes C3 A9): it answers e-acute to both, as
  Python does.
\<close>

definition sample_lower :: "string \<Rightarrow> string" where
  "sample_lower s = (if s = [CHR 0xC3, CHR 0x89] then [CHR 0xC3, CHR 0xA9] else s)"

text \<open>
  \<open>s.replace(old, new)\<close>: the occurrences of \<open>old\<close> are found from the left and do not overlap.
  With an empty \<open>old\<close>, Python puts \<open>new\<close> before every character and at the end.
\<close>

fun replace_from :: "string \<Rightarrow> string \<Rightarrow> nat \<Rightarrow> string \<Rightarrow> string" where
  "replace_from old new skip [] = []"
| "replace_from old new (Suc k) (c # s) = replace_from old new k s"
| "replace_from old new 0 (c # s) =
     (if take (length old) (c # s) = old
      then new @ replace_from old new (length old - 1) s
      else c # replace_from old new 0 s)"

definition replace :: "string \<Rightarrow> string \<Rightarrow> string \<Rightarrow> string" where
  "replace s old new =
     (if old = [] then new @ concat (map (\<lambda>c. c # new) s)
      else replace_from old new 0 s)"

subsection \<open>Text of a float\<close>

text \<open>
  An f-string field \<open>{x}\<close> of a float is \<open>repr(x)\<close>. For a whole number below \<open>2 ^ 53\<close> in
  absolute value that is its decimal digits followed by \<open>.0\<close>, with a minus sign when
  negative. The text of every other float depends on its binary representation; it is the
  parameter \<open>fmt\<close>.
\<close>

definition digit_char :: "nat \<Rightarrow> char" where
  "digit_char d = ''0123456789'' ! d"

function nat_str :: "nat \<Rightarrow> string" where
  "nat_str n = (if n < 10 then [digit_char n] else nat_str (n div 10) @ [digit_char (n mod 10)])"
  by pat_completeness auto
termination
  by (relation "measure (\<lambda>n. n)") auto

declare nat_str.simps [simp del]

definition int_str :: "int \<Rightarrow> string" where
  "int_str i = (if i < 0 then CHR ''-'' # nat_str (nat (- i)) else nat_str (nat i))"

definition float_str :: "(real \<Rightarrow> string) \<Rightarrow> real \<Rightarrow> string" where
  "float_str fmt x =
     (if x = of_int \<lfloor>x\<rfloor> \<and> \<bar>x\<bar> < 2 ^ 53 then int_str \<lfloor>x\<rfloor> @ ''.0'' else fmt x)"

subsection \<open>The Operation library\<close>

text \<open>
  \<open>execute\<close> delegates to the static methods of the class \<open>Operation\<close> of \<open>app.operation\<close>.
  A library is a record of its four methods; a method returns a number or raises. Each call
  that \<open>execute\<close> makes is recorded, in order, as an \<open>op_call\<close>.
\<close>

record Operation =
  addition :: "real \<Rightarrow> real \<Rightarrow> error + real"
  subtraction :: "real \<Rightarrow> real \<Rightarrow> error + real"
  multiplication :: "real \<Rightarrow> real \<Rightarrow> error + real"
  division :: "real \<Rightarrow> real \<Rightarrow> error + real"

datatype op_call =
    CallAddition real real
  | CallSubtraction real real
  | CallMultiplication real real
  | CallDivision real real

text \<open>
  Modelled from the spec: the module \<open>app.operation\<close> (class \<open>Operation\<close>) is not among the
  sources. The specification gives \<open>addition(a, b) -> a + b\<close>, \<open>subtraction(a, b) -> a - b\<close>,
  \<open>multiplication(a, b) -> a * b\<close> and \<open>division(a, b) -> a / b\<close>, the last one undefined for
  \<open>b == 0\<close>, where it shows the division-by-zero behaviour of the number representation:
  for Python floats, a \<open>ZeroDivisionError\<close> of the interpreter.
\<close>

definition spec_Operation :: Operation where
  "spec_Operation =
     \<lparr> addition = (\<lambda>x y. Inr (x + y)),
       subtraction = (\<lambda>x y. Inr (x - y)),
       multiplication = (\<lambda>x y. Inr (x * y)),
       division = (\<lambda>x y. if y = 0 then Inl (ZeroDivisionError ''float division by zero'')
                          else Inr (x / y)) \<rparr>"

subsection \<open>Calculation and its subclasses\<close>

text \<open>
  The four concrete classes; an instance holds its class and the two operands stored by
  \<open>Calculation.__init__\<close>.
\<close>

datatype calc_class =
    AddCalculation
  | SubtractCalculation
  | MultiplyCalculation
  | DivideCalculation

record Calculation =
  cls :: calc_class
  a :: real
  b :: real

text \<open>\<open>Calculation.__init__\<close>, called as \<open>calculation_class(a, b)\<close>.\<close>

definition init :: "calc_class \<Rightarrow> real \<Rightarrow> real \<Rightarrow> Calculation" where
  "init c x y = \<lparr> cls = c, a = x, b = y \<rparr>"

text \<open>\<open>self.__class__.__name__\<close>\<close>

fun class_name :: "calc_class \<Rightarrow> string" where
  "class_name AddCalculation = ''AddCalculation''"
| "class_name SubtractCalculation = ''SubtractCalculation''"
| "class_name MultiplyCalculation = ''MultiplyCalculation''"
| "class_name DivideCalculation = ''DivideCalculation''"

text \<open>
  What a method call on an entity leaves behind: the value returned or the exception raised,
  the entity after the call, and the calls made to the Operation library.
\<close>

record 'r outcome =
  result :: "error + 'r"
  entity :: Calculation
  calls :: "op_call list"

text \<open>\<open>execute\<close>, dispatched on the class of \<open>self\<close>.\<close>

definition execute :: "Operation \<Rightarrow> Calculation \<Rightarrow> real outcome" where
  "execute Op self =
     (case cls self of
        AddCalculation \<Rightarrow>
          \<lparr> result = addition Op (a self) (b self), entity = self,
            calls = [CallAddition (a self) (b self)] \<rparr>
      | SubtractCalculation \<Rightarrow>
          \<lparr> result = subtraction Op (a self) (b self), entity = self,
            calls = [CallSubtraction (a self) (b self)] \<rparr>
      | MultiplyCalculation \<Rightarrow>
          \<lparr> result = multiplication Op (a self) (b self), entity = self,
            calls = [CallMultiplication (a self) (b self)] \<rparr>
      | DivideCalculation \<Rightarrow>
          if b self = 0
          then \<lparr> result = Inl (ZeroDivisionError ''Cannot divide by zero.''), entity = self,
                 calls = [] \<rparr>
          else \<lparr> result = division Op (a self) (b self), entity = self,
                 calls = [CallDivision (a self) (b self)] \<rparr>)"

text \<open>
  \<open>Calculation.__str__\<close>: runs \<open>execute\<close> first, so an exception of \<open>execute\<close> leaves
  \<open>__str__\<close> before any text is built.
\<close>

definition Calculation_str :: "(real \<Rightarrow> string) \<Rightarrow> Operation \<Rightarrow> Calculation \<Rightarrow> string outcome" where
  "Calculation_str fmt Op self =
     (let r = execute Op self in
      case result r of
        Inl e \<Rightarrow> \<lparr> result = Inl e, entity = entity r, calls = calls r \<rparr>
      | Inr res \<Rightarrow>
          (let self' = entity r;
               operation_name = replace (class_name (cls self')) ''Calculation'' ''''
           in \<lparr> result = Inr (class_name (cls self') @ '': '' @ float_str fmt (a self') @ '' ''
                               @ operation_name @ '' '' @ float_str fmt (b self') @ '' = ''
                               @ float_str fmt res),
                entity = self', calls = calls r \<rparr>))"

text \<open>\<open>Calculation.__repr__\<close>: the class name and the operands, without running \<open>execute\<close>.\<close>

definition Calculation_repr :: "(real \<Rightarrow> string) \<Rightarrow> Calculation \<Rightarrow> string outcome" where
  "Calculation_repr fmt self =
     \<lparr> result = Inr (class_name (cls self) @ ''(a='' @ float_str fmt (a self) @ '', b=''
                       @ float_str fmt (b self) @ '')''),
       entity = self, calls = [] \<rparr>"

subsection \<open>CalculationFactory\<close>

text \<open>The dictionary \<open>_calculations\<close>: from lower-case names to classes.\<close>

type_synonym registry = "string \<rightharpoonup> calc_class"

text \<open>
  \<open>register_calculation(calculation_type)(subclass)\<close>: the decorator applied to a class.
  It returns the class, or raises, together with the dictionary after the call.
\<close>

definition register_calculation ::
    "(string \<Rightarrow> string) \<Rightarrow> registry \<Rightarrow> string \<Rightarrow> calc_class
       \<Rightarrow> (error + calc_class) \<times> registry" where
  "register_calculation unicode_lower calculations calculation_type subclass =
     (let calculation_type_lower = lower unicode_lower calculation_type in
      if calculation_type_lower \<in> dom calculations
      then (Inl (ValueError (''Calculation type '' @ [CHR 0x27] @ calculation_type @ [CHR 0x27]
                             @ '' is already registered.'')), calculations)
      else (Inr subclass, calculations(calculation_type_lower \<mapsto> subclass)))"

text \<open>\<open>create_calculation\<close>: reads the dictionary with \<open>get\<close>; \<open>None\<close> is the only falsy answer.\<close>

definition create_calculation ::
    "(string \<Rightarrow> string) \<Rightarrow> registry \<Rightarrow> string \<Rightarrow> real \<Rightarrow> real
       \<Rightarrow> error + Calculation" where
  "create_calculation unicode_lower calculations calculation_type x y =
     (let calculation_type_lower = lower unicode_lower calculation_type in
      case calculations calculation_type_lower of
        None \<Rightarrow> Inl (ValueError (''Unsupported calculation type: '' @ [CHR 0x27]
                                 @ calculation_type @ [CHR 0x27]))
      | Some calculation_class \<Rightarrow> Inr (init calculation_class x y))"

text \<open>
  Importing the module runs the four decorators in the order of the file, starting from the
  empty dictionary; an exception of one of them would end the import.
\<close>

definition and_then ::
    "error + registry \<Rightarrow> (registry \<Rightarrow> (error + calc_class) \<times> registry) \<Rightarrow> error + registry" where
  "and_then st f =
     (case st of
        Inl e \<Rightarrow> Inl e
      | Inr reg \<Rightarrow> (case f reg of (Inl e, _) \<Rightarrow> Inl e | (Inr _, reg') \<Rightarrow> Inr reg'))"

definition module_import :: "(string \<Rightarrow> string) \<Rightarrow> error + registry" where
  "module_import unicode_lower =
     and_then (and_then (and_then (and_then (Inr Map.empty)
       (\<lambda>reg. register_calculation unicode_lower reg ''add'' AddCalculation))
       (\<lambda>reg. register_calculation unicode_lower reg ''subtract'' SubtractCalculation))
       (\<lambda>reg. register_calculation unicode_lower reg ''multiply'' MultiplyCalculation))
       (\<lambda>reg. register_calculation unicode_lower reg ''divide'' DivideCalculation)"

text \<open>The dictionary once the module is imported.\<close>

definition loaded :: registry where
  "loaded = [''add'' \<mapsto> AddCalculation, ''subtract'' \<mapsto> SubtractCalculation,
             ''multiply'' \<mapsto> MultiplyCalculation, ''divide'' \<mapsto> DivideCalculation]"

section \<open>Properties\<close>

subsection \<open>Strings\<close>

lemma lower_capitals:
  "lower ulower ''ABCDEFGHIJKLMNOPQRSTUVWXYZ'' = ''abcdefghijklmnopqrstuvwxyz''"
  by (simp add: lower_def is_ascii_def lower_char_def)

lemma lower_ascii_others:
  "lower ulower ''abcxyz 0123456789 +-*/_.'' = ''abcxyz 0123456789 +-*/_.''"
  by (simp add: lower_def is_ascii_def lower_char_def)

lemma lower_beyond_ascii: "\<not> is_ascii s \<Longrightarrow> lower ulower s = ulower s"
  by (simp add: lower_def)

lemma lower_add: "lower ulower ''add'' = ''add''"
  by (simp add: lower_def is_ascii_def lower_char_def)

lemma lower_subtract: "lower ulower ''subtract'' = ''subtract''"
  by (simp add: lower_def is_ascii_def lower_char_def)

lemma lower_multiply: "lower ulower ''multiply'' = ''multiply''"
  by (simp add: lower_def is_ascii_def lower_char_def)

lemma lower_divide: "lower ulower ''divide'' = ''divide''"
  by (simp add: lower_def is_ascii_def lower_char_def)

lemma module_import_loaded: "module_import ulower = Inr loaded"
  by (simp add: module_import_def and_then_def register_calculation_def loaded_def
      lower_add lower_subtract lower_multiply lower_divide)

lemma replace_class_name:
  "replace (class_name c) ''Calculation'' '''' @ ''Calculation'' = class_name c"
  by (cases c) (simp_all add: replace_def)

lemma float_str_2: "float_str fmt 2 = ''2.0''"
  by (simp add: float_str_def int_str_def nat_str.simps digit_char_def)

lemma float_str_3: "float_str fmt 3 = ''3.0''"
  by (simp add: float_str_def int_str_def nat_str.simps digit_char_def)

lemma float_str_5: "float_str fmt 5 = ''5.0''"
  by (simp add: float_str_def int_str_def nat_str.simps digit_char_def)

subsection \<open>Creating the four built-in entities\<close>

lemma create_add:
  "create_calculation ulower loaded ''add'' x y = Inr (init AddCalculation x y)"
  by (simp add: create_calculation_def loaded_def lower_add)

lemma create_subtract:
  "create_calculation ulower loaded ''subtract'' x y = Inr (init SubtractCalculation x y)"
  by (simp add: create_calculation_def loaded_def lower_subtract)

lemma create_multiply:
  "create_calculation ulower loaded ''multiply'' x y = Inr (init MultiplyCalculation x y)"
  by (simp add: create_calculation_def loaded_def lower_multiply)

lemma create_divide:
  "create_calculation ulower loaded ''divide'' x y = Inr (init DivideCalculation x y)"
  by (simp add: create_calculation_def loaded_def lower_divide)

subsection \<open>Division by zero\<close>

text \<open>
  C1. For every first operand and every Operation library, the entity that
  \<open>create("divide", a, 0)\<close> returns raises \<open>ZeroDivisionError\<close> in \<open>execute\<close>: the exception is
  the one of the zero check of \<open>DivideCalculation.execute\<close>, and no call to the library has
  been made when it is raised.
\<close>

theorem divide_by_zero_raises:
  "create_calculation ulower loaded ''divide'' x 0 = Inr (init DivideCalculation x 0) \<and>
   execute Op (init DivideCalculation x 0) =
     \<lparr> result = Inl (ZeroDivisionError ''Cannot divide by zero.''),
       entity = init DivideCalculation x 0, calls = [] \<rparr>"
  by (simp add: create_divide execute_def init_def)

subsection \<open>The four operations\<close>

text \<open>
  C2. With the Operation library of the specification, the entities created for
  \<open>"add"\<close>, \<open>"subtract"\<close> and \<open>"multiply"\<close> execute to \<open>a + b\<close>, \<open>a - b\<close> and \<open>a * b\<close>, for
  all operands; none of the three raises.
\<close>

theorem add_subtract_multiply_execute:
  "create_calculation ulower loaded ''add'' x y = Inr (init AddCalculation x y) \<and>
   result (execute spec_Operation (init AddCalculation x y)) = Inr (x + y) \<and>
   create_calculation ulower loaded ''subtract'' x y = Inr (init SubtractCalculation x y) \<and>
   result (execute spec_Operation (init SubtractCalculation x y)) = Inr (x - y) \<and>
   create_calculation ulower loaded ''multiply'' x y = Inr (init MultiplyCalculation x y) \<and>
   result (execute spec_Operation (init MultiplyCalculation x y)) = Inr (x * y)"
  by (simp add: create_add create_subtract create_multiply execute_def init_def
      spec_Operation_def)

text \<open>
  C3. With the Operation library of the specification and a second operand other than
  zero, the entity created for \<open>"divide"\<close> executes to \<open>a / b\<close>.
\<close>

theorem divide_execute:
  assumes "y \<noteq> 0"
  shows "create_calculation ulower loaded ''divide'' x y = Inr (init DivideCalculation x y) \<and>
         result (execute spec_Operation (init DivideCalculation x y)) = Inr (x / y)"
  using assms by (simp add: create_divide execute_def init_def spec_Operation_def)

theorem divide_execute_witness:
  "(2::real) \<noteq> 0 \<and>
   create_calculation sample_lower loaded ''divide'' 10 2
     = Inr (init DivideCalculation 10 2) \<and>
   result (execute spec_Operation (init DivideCalculation 10 2)) = Inr 5"
proof -
  have h: "(2::real) \<noteq> 0" by simp
  show ?thesis
    using h divide_execute [OF h, where x = 10 and ulower = sample_lower] by simp
qed

subsection \<open>The factory\<close>

lemma lower_power: "lower ulower ''power'' = ''power''"
  by (simp add: lower_def is_ascii_def lower_char_def)

lemma lower_POWER: "lower ulower ''POWER'' = ''power''"
  by (simp add: lower_def is_ascii_def lower_char_def)

lemma lower_Add: "lower ulower ''Add'' = ''add''"
  by (simp add: lower_def is_ascii_def lower_char_def)

lemma lower_ADD: "lower ulower ''ADD'' = ''add''"
  by (simp add: lower_def is_ascii_def lower_char_def)

lemma lower_E_acute: "lower sample_lower [CHR 0xC3, CHR 0x89] = [CHR 0xC3, CHR 0xA9]"
  by (simp add: lower_def is_ascii_def sample_lower_def)

lemma lower_e_acute: "lower sample_lower [CHR 0xC3, CHR 0xA9] = [CHR 0xC3, CHR 0xA9]"
  by (simp add: lower_def is_ascii_def sample_lower_def)

text \<open>
  C4. When the lower-case form of the name is not a key of the dictionary,
  \<open>create_calculation\<close> raises the \<open>ValueError\<close> whose message quotes the name as it was
  given, whatever the operands, and returns no entity. This holds for every dictionary and
  whatever the Unicode case tables say beyond ASCII.
\<close>

theorem create_unsupported:
  assumes "lower ulower name \<notin> dom calculations"
  shows "create_calculation ulower calculations name x y =
           Inl (ValueError (''Unsupported calculation type: '' @ [CHR 0x27] @ name @ [CHR 0x27])) \<and>
         (\<forall>e. create_calculation ulower calculations name x y \<noteq> Inr e)"
  using assms by (simp add: create_calculation_def domIff)

theorem create_unsupported_witness:
  "lower sample_lower ''power'' \<notin> dom loaded \<and>
   create_calculation sample_lower loaded ''power'' 2 3 =
     Inl (ValueError (''Unsupported calculation type: '' @ [CHR 0x27] @ ''power'' @ [CHR 0x27])) \<and>
   lower sample_lower [CHR 0xC3, CHR 0x89] \<notin> dom loaded \<and>
   create_calculation sample_lower loaded [CHR 0xC3, CHR 0x89] 2 3 =
     Inl (ValueError (''Unsupported calculation type: '' @ [CHR 0x27]
                      @ [CHR 0xC3, CHR 0x89] @ [CHR 0x27]))"
proof -
  have h: "lower sample_lower ''power'' \<notin> dom loaded"
    by (simp add: lower_power loaded_def)
  have k: "lower sample_lower [CHR 0xC3, CHR 0x89] \<notin> dom loaded"
    by (simp add: lower_E_acute loaded_def)
  show ?thesis
    using h k create_unsupported [OF h, where x = 2 and y = 3]
      create_unsupported [OF k, where x = 2 and y = 3]
    by simp
qed

text \<open>
  C5. When the lower-case form of the name is already a key of the dictionary, the decorator
  raises the \<open>ValueError\<close> of a duplicate registration and leaves the dictionary as it was:
  the key keeps its class, and every later \<open>create_calculation\<close> answers as before the call.
  This holds for every dictionary and whatever the Unicode case tables say beyond ASCII.
\<close>

theorem register_duplicate:
  assumes "lower ulower name \<in> dom calculations"
  shows "register_calculation ulower calculations name new_class =
           (Inl (ValueError (''Calculation type '' @ [CHR 0x27] @ name @ [CHR 0x27]
                             @ '' is already registered.'')), calculations) \<and>
         snd (register_calculation ulower calculations name new_class) (lower ulower name)
           = calculations (lower ulower name) \<and>
         create_calculation ulower
             (snd (register_calculation ulower calculations name new_class)) n x y
           = create_calculation ulower calculations n x y"
  using assms by (simp add: register_calculation_def)

theorem register_duplicate_witness:
  "lower sample_lower ''Add'' \<in> dom loaded \<and>
   register_calculation sample_lower loaded ''Add'' DivideCalculation =
     (Inl (ValueError (''Calculation type '' @ [CHR 0x27] @ ''Add'' @ [CHR 0x27]
                       @ '' is already registered.'')), loaded) \<and>
   create_calculation sample_lower
       (snd (register_calculation sample_lower loaded ''Add'' DivideCalculation)) ''add'' 2 3
     = Inr (init AddCalculation 2 3) \<and>
   lower sample_lower [CHR 0xC3, CHR 0x89] \<in> dom [[CHR 0xC3, CHR 0xA9] \<mapsto> AddCalculation] \<and>
   register_calculation sample_lower [[CHR 0xC3, CHR 0xA9] \<mapsto> AddCalculation]
       [CHR 0xC3, CHR 0x89] DivideCalculation =
     (Inl (ValueError (''Calculation type '' @ [CHR 0x27] @ [CHR 0xC3, CHR 0x89] @ [CHR 0x27]
                       @ '' is already registered.'')),
      [[CHR 0xC3, CHR 0xA9] \<mapsto> AddCalculation])"
proof -
  have h: "lower sample_lower ''Add'' \<in> dom loaded"
    by (simp add: lower_Add loaded_def)
  have c: "create_calculation sample_lower loaded ''add'' 2 3 = Inr (init AddCalculation 2 3)"
    by (rule create_add)
  have k: "lower sample_lower [CHR 0xC3, CHR 0x89]
             \<in> dom [[CHR 0xC3, CHR 0xA9] \<mapsto> AddCalculation]"
    by (simp add: lower_E_acute)
  show ?thesis
    using h c k
      register_duplicate [OF h, where new_class = DivideCalculation and n = "''add''"
        and x = 2 and y = 3]
      register_duplicate [OF k, where new_class = DivideCalculation]
    by simp
qed

text \<open>
  C6, as stated: two names with the same lower-case form make \<open>create_calculation\<close> behave
  identically. For an unregistered name this fails: the message of the \<open>ValueError\<close> quotes
  the name as each call spelled it.
\<close>

theorem create_case_variants_counterexample:
  "lower sample_lower ''POWER'' = lower sample_lower ''power'' \<and>
   create_calculation sample_lower loaded ''POWER'' 2 3
     \<noteq> create_calculation sample_lower loaded ''power'' 2 3"
  by (simp add: lower_POWER lower_power create_calculation_def loaded_def)

text \<open>
  C6, amended: for two names with the same lower-case form and the same operands, either
  both calls return an entity of the same class with these operands, or both raise the
  \<open>ValueError\<close> of an unsupported type, each quoting its own spelling of the name. This
  holds for every dictionary and whatever the Unicode case tables say beyond ASCII.
\<close>

theorem create_case_insensitive:
  assumes "lower ulower name1 = lower ulower name2"
  shows "(\<exists>c. create_calculation ulower calculations name1 x y = Inr (init c x y) \<and>
              create_calculation ulower calculations name2 x y = Inr (init c x y)) \<or>
         (create_calculation ulower calculations name1 x y =
            Inl (ValueError (''Unsupported calculation type: '' @ [CHR 0x27] @ name1 @ [CHR 0x27])) \<and>
          create_calculation ulower calculations name2 x y =
            Inl (ValueError (''Unsupported calculation type: '' @ [CHR 0x27] @ name2 @ [CHR 0x27])))"
proof (cases "calculations (lower ulower name1)")
  case None
  with assms show ?thesis by (simp add: create_calculation_def)
next
  case (Some c)
  with assms show ?thesis by (auto simp: create_calculation_def)
qed

theorem create_case_insensitive_witness:
  "lower sample_lower ''ADD'' = lower sample_lower ''add'' \<and>
   create_calculation sample_lower loaded ''ADD'' 2 3 = Inr (init AddCalculation 2 3) \<and>
   create_calculation sample_lower loaded ''add'' 2 3 = Inr (init AddCalculation 2 3) \<and>
   lower sample_lower [CHR 0xC3, CHR 0x89] = lower sample_lower [CHR 0xC3, CHR 0xA9] \<and>
   create_calculation sample_lower [[CHR 0xC3, CHR 0xA9] \<mapsto> MultiplyCalculation]
       [CHR 0xC3, CHR 0x89] 2 3 = Inr (init MultiplyCalculation 2 3) \<and>
   create_calculation sample_lower [[CHR 0xC3, CHR 0xA9] \<mapsto> MultiplyCalculation]
       [CHR 0xC3, CHR 0xA9] 2 3 = Inr (init MultiplyCalculation 2 3)"
proof -
  have h: "lower sample_lower ''ADD'' = lower sample_lower ''add''"
    by (simp add: lower_ADD lower_add)
  have n: "create_calculation sample_lower loaded ''add'' 2 3 = Inr (init AddCalculation 2 3)"
    by (rule create_add)
  from create_case_insensitive [OF h, where calculations = loaded and x = 2 and y = 3] n
  have u: "create_calculation sample_lower loaded ''ADD'' 2 3 = Inr (init AddCalculation 2 3)"
    by (auto simp: init_def)
  have k: "lower sample_lower [CHR 0xC3, CHR 0x89] = lower sample_lower [CHR 0xC3, CHR 0xA9]"
    by (simp add: lower_E_acute lower_e_acute)
  have m: "create_calculation sample_lower [[CHR 0xC3, CHR 0xA9] \<mapsto> MultiplyCalculation]
             [CHR 0xC3, CHR 0xA9] 2 3 = Inr (init MultiplyCalculation 2 3)"
    by (simp add: create_calculation_def lower_e_acute)
  from create_case_insensitive [OF k,
      where calculations = "[[CHR 0xC3, CHR 0xA9] \<mapsto> MultiplyCalculation]"
        and x = 2 and y = 3] m
  have v: "create_calculation sample_lower [[CHR 0xC3, CHR 0xA9] \<mapsto> MultiplyCalculation]
             [CHR 0xC3, CHR 0x89] 2 3 = Inr (init MultiplyCalculation 2 3)"
    by (auto simp: init_def)
  from h n u k m v show ?thesis by simp
qed

subsection \<open>Text rendering\<close>

lemma execute_entity: "entity (execute Op e) = e"
  by (cases "cls e") (simp_all add: execute_def)

lemma execute_add_2_3:
  "result (execute spec_Operation (init AddCalculation 2 3)) = Inr 5"
  by (simp add: execute_def init_def spec_Operation_def)

text \<open>
  C7. Whenever \<open>execute\<close> returns a result, \<open>__str__\<close> returns the class name, a colon, the
  first operand, the class name without its suffix \<open>Calculation\<close>, the second operand, an
  equals sign and the result, separated by single spaces. In particular, when the addition
  of 2.0 and 3.0 executes to 5.0, the text is \<open>AddCalculation: 2.0 Add 3.0 = 5.0\<close>.
\<close>

theorem str_format:
  "(result (execute Op e) = Inr r \<longrightarrow>
      (\<exists>symbol. symbol @ ''Calculation'' = class_name (cls e) \<and>
         result (Calculation_str fmt Op e) =
           Inr (class_name (cls e) @ '': '' @ float_str fmt (a e) @ '' '' @ symbol @ '' ''
                @ float_str fmt (b e) @ '' = '' @ float_str fmt r))) \<and>
   (result (execute Op (init AddCalculation 2 3)) = Inr 5 \<longrightarrow>
      result (Calculation_str fmt Op (init AddCalculation 2 3)) =
        Inr ''AddCalculation: 2.0 Add 3.0 = 5.0'')"
proof (intro conjI impI)
  assume ok: "result (execute Op e) = Inr r"
  let ?symbol = "replace (class_name (cls e)) ''Calculation'' ''''"
  have "?symbol @ ''Calculation'' = class_name (cls e)"
    by (rule replace_class_name)
  moreover have "result (Calculation_str fmt Op e) =
      Inr (class_name (cls e) @ '': '' @ float_str fmt (a e) @ '' '' @ ?symbol @ '' ''
           @ float_str fmt (b e) @ '' = '' @ float_str fmt r)"
    using ok by (simp add: Calculation_str_def Let_def execute_entity)
  ultimately show "\<exists>symbol. symbol @ ''Calculation'' = class_name (cls e) \<and>
            result (Calculation_str fmt Op e) =
              Inr (class_name (cls e) @ '': '' @ float_str fmt (a e) @ '' '' @ symbol @ '' ''
                   @ float_str fmt (b e) @ '' = '' @ float_str fmt r)"
    by blast
next
  assume "result (execute Op (init AddCalculation 2 3)) = Inr 5"
  then show "result (Calculation_str fmt Op (init AddCalculation 2 3)) =
           Inr ''AddCalculation: 2.0 Add 3.0 = 5.0''"
    by (simp add: Calculation_str_def Let_def execute_entity init_def replace_def
        float_str_2 float_str_3 float_str_5)
qed

theorem str_format_witness:
  "create_calculation sample_lower loaded ''add'' 2 3 = Inr (init AddCalculation 2 3) \<and>
   result (execute spec_Operation (init AddCalculation 2 3)) = Inr 5 \<and>
   result (Calculation_str (\<lambda>x. []) spec_Operation (init AddCalculation 2 3)) =
     Inr ''AddCalculation: 2.0 Add 3.0 = 5.0''"
  using str_format [of spec_Operation "init AddCalculation 2 3" 5 "\<lambda>x. []"]
    execute_add_2_3 create_add [where x = 2 and y = 3 and ulower = sample_lower]
  by simp

text \<open>
  C8. \<open>__str__\<close> of a divide entity whose second operand is zero raises the
  \<open>ZeroDivisionError\<close> that \<open>execute\<close> raises, and returns no text.
\<close>

theorem str_divide_by_zero:
  "result (execute Op (init DivideCalculation x 0)) =
     Inl (ZeroDivisionError ''Cannot divide by zero.'') \<and>
   result (Calculation_str fmt Op (init DivideCalculation x 0)) =
     Inl (ZeroDivisionError ''Cannot divide by zero.'') \<and>
   calls (Calculation_str fmt Op (init DivideCalculation x 0)) = []"
  by (simp add: Calculation_str_def execute_def init_def)

text \<open>
  C9. When \<open>execute\<close> returns a result, \<open>__str__\<close> leaves the entity, and so both operands,
  as they were, and a second \<open>__str__\<close> on the entity returns the text of the first.
\<close>

theorem str_idempotent:
  assumes "result (execute Op e) = Inr r"
  shows "entity (Calculation_str fmt Op e) = e \<and>
         a (entity (Calculation_str fmt Op e)) = a e \<and>
         b (entity (Calculation_str fmt Op e)) = b e \<and>
         (\<exists>s. result (Calculation_str fmt Op e) = Inr s \<and>
              result (Calculation_str fmt Op (entity (Calculation_str fmt Op e))) = Inr s)"
proof -
  have "entity (Calculation_str fmt Op e) = e"
    by (simp add: Calculation_str_def Let_def execute_entity split: sum.split)
  moreover from assms have "\<exists>s. result (Calculation_str fmt Op e) = Inr s"
    by (simp add: Calculation_str_def Let_def)
  ultimately show ?thesis by auto
qed

theorem str_idempotent_witness:
  "result (execute spec_Operation (init AddCalculation 2 3)) = Inr 5 \<and>
   entity (Calculation_str (\<lambda>x. []) spec_Operation (init AddCalculation 2 3))
     = init AddCalculation 2 3 \<and>
   result (Calculation_str (\<lambda>x. []) spec_Operation
             (entity (Calculation_str (\<lambda>x. []) spec_Operation (init AddCalculation 2 3))))
     = result (Calculation_str (\<lambda>x. []) spec_Operation (init AddCalculation 2 3))"
proof -
  have h: "result (execute spec_Operation (init AddCalculation 2 3)) = Inr 5"
    by (rule execute_add_2_3)
  from str_idempotent [OF h, of "\<lambda>x. []"] h show ?thesis by auto
qed

end
